theory Spec2Isabelle
  imports Main "HOL-Library.Word"
begin

section \<open>The vectormap container (include/vectormap.hpp)\<close>

text \<open>
  \<open>com::vectormap<key_, value_, delta_>\<close> keeps pairs of key and value in one
  manually managed buffer, in insertion order. The embedding follows the header member by
  member.

  \<^item> \<open>size_type\<close> is \<open>size_t\<close>, a 64-bit unsigned integer: \<open>64 word\<close>, so that
    \<open>+\<close>, \<open>-\<close> and \<open>*\<close> wrap around as they do in the source.
  \<^item> The template parameter \<open>delta_\<close> is the first argument \<open>\<delta>\<close> of every function
    whose source uses it.
  \<^item> The buffer behind \<open>data_\<close> is a list of slots, one per allocated element;
    a \<open>data_\<close> of \<open>None\<close> is \<open>nullptr\<close>. A slot is \<open>Some (k, v)\<close> when an object lives in
    it and \<open>None\<close> when it is raw storage (never constructed, or destroyed).
  \<^item> Every container owns its buffer alone (the copy operations allocate, the move
    operations null the source), so a container carries its buffer as a value.
  \<^item> \<open>std::allocator\<close> has no state: the member \<open>allocator_\<close> is left out, and
    an allocation always succeeds.
  \<^item> A pointer into the buffer, and so an iterator, is the offset from \<open>data_\<close>.
  \<^item> The members \<open>void_mapped_type_\<close> and \<open>void_key_type_\<close> are declared
    without an initialiser: they hold \<open>Some\<close> value, or \<open>None\<close> while their value
    is indeterminate.
  \<^item> A name cannot end in an underscore here: the members \<open>size_\<close>,
    \<open>capacity_\<close>, \<open>data_\<close>, \<open>void_mapped_type_\<close>, \<open>void_key_type_\<close>
    and the function \<open>gap_\<close> carry the suffix \<open>m\<close>.
\<close>

type_synonym size_type = "64 word"

definition npos :: size_type where
  "npos = 18446744073709551615"

type_synonym ('k, 'v) buffer = "('k \<times> 'v) option list option"

datatype iterator = Iterator nat

record ('k, 'v) vectormap =
  size_m :: size_type
  capacity_m :: size_type
  data_m :: "('k, 'v) buffer"
  void_mapped_type_m :: "'v option"
  void_key_type_m :: "'k option"

subsection \<open>Raw storage\<close>

text \<open>
  \<open>allocator_traits::allocate\<close>, \<open>construct\<close> and \<open>destroy\<close>, and the read of
  \<open>data_[i]\<close>. Reading a slot where no object lives is undefined behaviour in C++; the
  model makes it visible instead: the read yields \<open>None\<close>, and constructing from it
  leaves \<open>None\<close> in the target. An access outside the buffer reads \<open>None\<close> and
  writes nothing.
\<close>

definition allocate :: "size_type \<Rightarrow> ('k, 'v) buffer" where
  "allocate n = Some (replicate (unat n) None)"

definition slot_at :: "('k, 'v) buffer \<Rightarrow> nat \<Rightarrow> ('k \<times> 'v) option" where
  "slot_at d i = (case d of None \<Rightarrow> None
                  | Some b \<Rightarrow> if i < length b then b ! i else None)"

definition construct :: "('k, 'v) buffer \<Rightarrow> nat \<Rightarrow> ('k \<times> 'v) option \<Rightarrow> ('k, 'v) buffer" where
  "construct d i s = (case d of None \<Rightarrow> None | Some b \<Rightarrow> Some (b[i := s]))"

definition destroy :: "('k, 'v) buffer \<Rightarrow> nat \<Rightarrow> ('k, 'v) buffer" where
  "destroy d i = (case d of None \<Rightarrow> None | Some b \<Rightarrow> Some (b[i := None]))"

text \<open>The slots of the live range \<open>[0, size_)\<close>, in order.\<close>

definition live :: "('k, 'v) vectormap \<Rightarrow> ('k \<times> 'v) option list" where
  "live c = map (slot_at (data_m c)) [0..<unat (size_m c)]"

subsection \<open>Storage manager: resize and reserve\<close>

text \<open>
  \<open>resize\<close> (lines 531-550): refuses a capacity below \<open>size_\<close>; otherwise allocates
  \<open>new_capacity\<close> slots, copy-constructs every live element into the new buffer and
  destroys the old one, then replaces \<open>data_\<close> and \<open>capacity_\<close>.
\<close>

definition resize :: "('k, 'v) vectormap \<Rightarrow> size_type \<Rightarrow> bool \<times> ('k, 'v) vectormap" where
  "resize c new_capacity =
     (if new_capacity < size_m c then (False, c)
      else
        let new_data = allocate new_capacity;
            moved = fold (\<lambda>i (n, d). (construct n i (slot_at d i), destroy d i))
                      [0..<unat (size_m c)] (new_data, data_m c)
        in (True, c\<lparr>data_m := fst moved, capacity_m := new_capacity\<rparr>))"

text \<open>
  \<open>reserve\<close> (lines 522-529): refuses \<open>min_capacity < size_\<close>; otherwise resizes to
  \<open>((min_capacity / delta_) + 1) * delta_\<close>, whatever the current capacity is.
\<close>

definition reserve :: "size_type \<Rightarrow> ('k, 'v) vectormap \<Rightarrow> size_type \<Rightarrow> bool \<times> ('k, 'v) vectormap" where
  "reserve \<delta> c min_capacity =
     (if min_capacity < size_m c then (False, c)
      else resize c (((min_capacity div \<delta>) + 1) * \<delta>))"

definition shrink :: "('k, 'v) vectormap \<Rightarrow> bool \<times> ('k, 'v) vectormap" where
  "shrink c = resize c (size_m c)"

subsection \<open>Shift engine: gap_\<close>

text \<open>
  The loop of \<open>gap_\<close> (lines 597-600):
  \<open>for (i = size_ - 1; (i > from) && ((i - length) != npos); i--)\<close>, moving
  \<open>data_[i - length]\<close> into \<open>data_[i]\<close> and destroying the source slot.
\<close>

function gap_loop :: "size_type \<Rightarrow> size_type \<Rightarrow> size_type \<Rightarrow> ('k, 'v) buffer \<Rightarrow> ('k, 'v) buffer" where
  "gap_loop frm len i d =
     (if frm < i \<and> i - len \<noteq> npos
      then gap_loop frm len (i - 1)
             (destroy (construct d (unat i) (slot_at d (unat (i - len)))) (unat (i - len)))
      else d)"
  by pat_completeness auto
termination
proof (relation "measure (\<lambda>(frm, len, i, d). unat i)")
  show "wf (measure (\<lambda>(frm, len, i, d). unat i))" by simp
next
  fix frm len i :: size_type and d :: "('k, 'v) buffer"
  assume "frm < i \<and> i - len \<noteq> npos"
  then have "i \<noteq> 0" by auto
  then have "unat (i - 1) < unat i"
    by (simp add: unat_minus_one unat_gt_0 word_neq_0_conv)
  then show "((frm, len, i - 1,
               destroy (construct d (unat i) (slot_at d (unat (i - len)))) (unat (i - len))),
              (frm, len, i, d)) \<in> measure (\<lambda>(frm, len, i, d). unat i)"
    by simp
qed

text \<open>
  \<open>gap_\<close> (lines 578-607). \<open>size_\<close> is increased before the result of the growth is
  looked at, and the early return on \<open>size_ <= length\<close> is taken before it too.
\<close>

definition gap_m :: "size_type \<Rightarrow> ('k, 'v) vectormap \<Rightarrow> size_type \<Rightarrow> size_type \<Rightarrow> bool \<times> ('k, 'v) vectormap" where
  "gap_m \<delta> c frm len =
     (let grown = (if size_m c + len > capacity_m c then reserve \<delta> c (size_m c + len)
                   else (True, c));
          success = fst grown;
          c1 = (snd grown)\<lparr>size_m := size_m (snd grown) + len\<rparr>
      in if size_m c1 \<le> len then (True, c1)
         else if success then
           (if frm \<ge> size_m c1 then (True, c1)
            else (True, c1\<lparr>data_m := gap_loop frm len (size_m c1 - 1) (data_m c1)\<rparr>))
         else (False, c1))"

subsection \<open>Constructors\<close>

text \<open>
  The members \<open>void_mapped_type_\<close> and \<open>void_key_type_\<close> (lines 260-261) have no
  initialiser and appear in no constructor: every constructor default-initialises them.
  \<open>k0\<close> and \<open>v0\<close> stand for what default-initialisation leaves in a
  \<open>key_type\<close> and in a \<open>mapped_type\<close>: \<open>Some\<close> of the default-constructed value
  for a class type such as \<open>std::string\<close>, \<open>None\<close> for a scalar type such as
  \<open>int\<close>, whose value is indeterminate.
\<close>

definition vectormap_default :: "'k option \<Rightarrow> 'v option \<Rightarrow> ('k, 'v) vectormap" where
  "vectormap_default k0 v0 =
     \<lparr>size_m = 0, capacity_m = 0, data_m = None,
      void_mapped_type_m = v0, void_key_type_m = k0\<rparr>"

text \<open>
  From an initialiser list (lines 265-279): capacity \<open>delta_\<close>, or
  \<open>((il.size() / delta_) + 1) * delta_\<close> when the list is longer; the elements are
  constructed in order, \<open>size_\<close> counting them.
\<close>

definition vectormap_il :: "size_type \<Rightarrow> 'k option \<Rightarrow> 'v option \<Rightarrow> ('k \<times> 'v) list \<Rightarrow> ('k, 'v) vectormap" where
  "vectormap_il \<delta> k0 v0 il =
     (let n = (of_nat (length il) :: size_type);
          cap = (if \<delta> < n then ((n div \<delta>) + 1) * \<delta> else \<delta>);
          built = fold (\<lambda>elem (d, sz, counter).
                          (construct d (unat counter) (Some elem), sz + 1, counter + 1))
                    il (allocate cap, 0 :: size_type, 0 :: size_type)
      in \<lparr>size_m = fst (snd built), capacity_m = cap, data_m = fst built,
          void_mapped_type_m = v0, void_key_type_m = k0\<rparr>)"

text \<open>Copy constructor (lines 281-288).\<close>

definition vectormap_copy :: "'k option \<Rightarrow> 'v option \<Rightarrow> ('k, 'v) vectormap \<Rightarrow> ('k, 'v) vectormap" where
  "vectormap_copy k0 v0 other =
     \<lparr>size_m = size_m other, capacity_m = capacity_m other,
      data_m = fold (\<lambda>i d. construct d i (slot_at (data_m other) i))
                 [0..<unat (size_m other)] (allocate (capacity_m other)),
      void_mapped_type_m = v0, void_key_type_m = k0\<rparr>"

text \<open>
  Move constructor (lines 290-302): the new container and what is left of \<open>other\<close>.
\<close>

definition vectormap_move :: "'k option \<Rightarrow> 'v option \<Rightarrow> ('k, 'v) vectormap \<Rightarrow> ('k, 'v) vectormap \<times> ('k, 'v) vectormap" where
  "vectormap_move k0 v0 other =
     (\<lparr>size_m = size_m other, capacity_m = capacity_m other, data_m = data_m other,
       void_mapped_type_m = v0, void_key_type_m = k0\<rparr>,
      other\<lparr>data_m := None, size_m := 0, capacity_m := 0\<rparr>)"

subsection \<open>Insertion\<close>

text \<open>\<open>end()\<close> is \<open>iterator(data_ + size_)\<close>.\<close>

definition end_m :: "('k, 'v) vectormap \<Rightarrow> iterator" where
  "end_m c = Iterator (unat (size_m c))"

text \<open>\<open>insert(val, pos)\<close> (lines 313-329).\<close>

definition insert_val :: "size_type \<Rightarrow> ('k, 'v) vectormap \<Rightarrow> 'k \<times> 'v \<Rightarrow> size_type \<Rightarrow> iterator \<times> ('k, 'v) vectormap" where
  "insert_val \<delta> c val pos =
     (if pos > size_m c then (end_m c, c)
      else
        let g = gap_m \<delta> c pos 1
        in if fst g
           then (Iterator (unat pos),
                 (snd g)\<lparr>data_m := construct (data_m (snd g)) (unat pos) (Some val)\<rparr>)
           else (end_m (snd g), snd g))"

text \<open>\<open>insert(key, val, pos)\<close> (line 153).\<close>

definition insert_key_val :: "size_type \<Rightarrow> ('k, 'v) vectormap \<Rightarrow> 'k \<Rightarrow> 'v \<Rightarrow> size_type \<Rightarrow> iterator \<times> ('k, 'v) vectormap" where
  "insert_key_val \<delta> c key val pos = insert_val \<delta> c (key, val) pos"

text \<open>\<open>insert(il, pos)\<close> (lines 331-348).\<close>

definition insert_il :: "size_type \<Rightarrow> ('k, 'v) vectormap \<Rightarrow> ('k \<times> 'v) list \<Rightarrow> size_type \<Rightarrow> iterator \<times> ('k, 'v) vectormap" where
  "insert_il \<delta> c il pos =
     (if pos > size_m c then (end_m c, c)
      else
        let g = gap_m \<delta> c pos (of_nat (length il))
        in if fst g
           then (Iterator (unat pos),
                 (snd g)\<lparr>data_m := fold (\<lambda>i d. construct d (unat pos + i) (Some (il ! i)))
                                    [0..<length il] (data_m (snd g))\<rparr>)
           else (end_m (snd g), snd g))"

text \<open>
  \<open>insert(map, pos)\<close> (lines 350-368), for a \<open>map\<close> that is another object than
  \<open>*this\<close>.
\<close>

definition insert_map :: "size_type \<Rightarrow> ('k, 'v) vectormap \<Rightarrow> ('k, 'v) vectormap \<Rightarrow> size_type \<Rightarrow> iterator \<times> ('k, 'v) vectormap" where
  "insert_map \<delta> c m pos =
     (if pos > size_m c then (end_m c, c)
      else
        let g = gap_m \<delta> c pos (size_m m)
        in if fst g
           then (Iterator (unat pos),
                 (snd g)\<lparr>data_m := fold (\<lambda>i d. construct d (unat pos + i) (slot_at (data_m m) i))
                                    [0..<unat (size_m m)] (data_m (snd g))\<rparr>)
           else (end_m (snd g), snd g))"

text \<open>\<open>push_back\<close> and \<open>push_front\<close> (lines 162-176).\<close>

definition push_back_val :: "size_type \<Rightarrow> ('k, 'v) vectormap \<Rightarrow> 'k \<times> 'v \<Rightarrow> iterator \<times> ('k, 'v) vectormap" where
  "push_back_val \<delta> c val = insert_val \<delta> c val (size_m c)"

definition push_back_il :: "size_type \<Rightarrow> ('k, 'v) vectormap \<Rightarrow> ('k \<times> 'v) list \<Rightarrow> iterator \<times> ('k, 'v) vectormap" where
  "push_back_il \<delta> c il = insert_il \<delta> c il (size_m c)"

definition push_front_val :: "size_type \<Rightarrow> ('k, 'v) vectormap \<Rightarrow> 'k \<times> 'v \<Rightarrow> iterator \<times> ('k, 'v) vectormap" where
  "push_front_val \<delta> c val = insert_val \<delta> c val 0"

definition push_front_il :: "size_type \<Rightarrow> ('k, 'v) vectormap \<Rightarrow> ('k \<times> 'v) list \<Rightarrow> iterator \<times> ('k, 'v) vectormap" where
  "push_front_il \<delta> c il = insert_il \<delta> c il 0"

subsection \<open>Element access\<close>

text \<open>\<open>get(pos)\<close> (line 181).\<close>

definition get_at :: "('k, 'v) vectormap \<Rightarrow> size_type \<Rightarrow> iterator" where
  "get_at c pos = (if pos < size_m c then Iterator (unat pos) else end_m c)"

text \<open>The test \<open>data_[i].first == key\<close>.\<close>

definition key_is :: "('k, 'v) buffer \<Rightarrow> nat \<Rightarrow> 'k \<Rightarrow> bool" where
  "key_is d i key = (case slot_at d i of None \<Rightarrow> False | Some e \<Rightarrow> fst e = key)"

text \<open>
  \<open>get(key, ordinal, number)\<close> (lines 370-392). The loop runs over the positions
  \<open>0, ..., size_ - 1\<close> with the counter \<open>order\<close> and the result \<open>out\<close>; its first branch
  returns from inside the loop. \<open>out.size() == (number - 1)\<close> compares two
  \<open>size_type\<close> values.
\<close>

fun get_loop :: "('k, 'v) buffer \<Rightarrow> 'k \<Rightarrow> size_type \<Rightarrow> size_type \<Rightarrow> nat list \<Rightarrow> size_type
                  \<Rightarrow> (iterator \<times> size_type) list \<Rightarrow> (iterator \<times> size_type) list" where
  "get_loop d key ordinal number [] order out = out"
| "get_loop d key ordinal number (i # is) order out =
     (if key_is d i key then
        (if order \<ge> ordinal \<and> of_nat (length out) = number - 1
         then out @ [(Iterator i, of_nat i)]
         else if order \<ge> ordinal
         then get_loop d key ordinal number is (order + 1) (out @ [(Iterator i, of_nat i)])
         else get_loop d key ordinal number is (order + 1) out)
      else get_loop d key ordinal number is order out)"

definition get :: "('k, 'v) vectormap \<Rightarrow> 'k \<Rightarrow> size_type \<Rightarrow> size_type \<Rightarrow> (iterator \<times> size_type) list" where
  "get c key ordinal number =
     get_loop (data_m c) key ordinal number [0..<unat (size_m c)] 1 []"

text \<open>\<open>get_all(key)\<close> (lines 394-403).\<close>

definition get_all :: "('k, 'v) vectormap \<Rightarrow> 'k \<Rightarrow> (iterator \<times> size_type) list" where
  "get_all c key =
     fold (\<lambda>i out. if key_is (data_m c) i key then out @ [(Iterator i, of_nat i)] else out)
       [0..<unat (size_m c)] []"

text \<open>
  \<open>get_value(pos)\<close> and \<open>get_key(pos)\<close> (lines 184 and 187) return a reference: to
  the half of \<open>data_[pos]\<close>, or to the member \<open>void_mapped_type_\<close> or
  \<open>void_key_type_\<close>. They are not \<open>const\<close>: the container is returned with the
  reference.
\<close>

datatype reference = Slot_ref nat | Void_ref

definition get_value_at :: "('k, 'v) vectormap \<Rightarrow> size_type \<Rightarrow> reference \<times> ('k, 'v) vectormap" where
  "get_value_at c pos = (if pos < size_m c then (Slot_ref (unat pos), c) else (Void_ref, c))"




text \<open>
  \<open>get_value(pos)\<close> returns \<open>mapped_type&\<close>, not a \<open>const\<close> reference: a
  caller can assign through it, as in \<open>m.get_value(pos) = v\<close>. The assignment goes to
  \<open>data_[pos].second\<close> or to the member \<open>void_mapped_type_\<close>.
\<close>

definition write_value :: "('k, 'v) vectormap \<Rightarrow> reference \<Rightarrow> 'v \<Rightarrow> ('k, 'v) vectormap" where
  "write_value c r v =
     (case r of
        Slot_ref i \<Rightarrow>
          (case slot_at (data_m c) i of
             None \<Rightarrow> c
           | Some e \<Rightarrow> c\<lparr>data_m := construct (data_m c) i (Some (fst e, v))\<rparr>)
      | Void_ref \<Rightarrow> c\<lparr>void_mapped_type_m := Some v\<rparr>)"

subsection \<open>Element management\<close>

text \<open>\<open>set_value(new_mapped_value, pos)\<close> (line 197) assigns to \<open>data_[pos].second\<close>.\<close>

definition set_value_at :: "('k, 'v) vectormap \<Rightarrow> 'v \<Rightarrow> size_type \<Rightarrow> ('k, 'v) vectormap" where
  "set_value_at c new_mapped_value pos =
     (case slot_at (data_m c) (unat pos) of
        None \<Rightarrow> c
      | Some e \<Rightarrow> c\<lparr>data_m := construct (data_m c) (unat pos) (Some (fst e, new_mapped_value))\<rparr>)"

text \<open>\<open>clear\<close> (lines 453-458).\<close>

definition clear :: "('k, 'v) vectormap \<Rightarrow> ('k, 'v) vectormap" where
  "clear c = c\<lparr>data_m := fold (\<lambda>i d. destroy d i) [0..<unat (size_m c)] (data_m c),
               size_m := 0\<rparr>"

text \<open>\<open>erase(pos)\<close> (lines 460-469).\<close>

definition erase :: "('k, 'v) vectormap \<Rightarrow> size_type \<Rightarrow> ('k, 'v) vectormap" where
  "erase c pos =
     (if size_m c > 0 \<and> pos < size_m c
      then
        let c1 = c\<lparr>size_m := size_m c - 1\<rparr>
        in c1\<lparr>data_m := fold (\<lambda>i d. let d1 = destroy d i
                                     in construct d1 i (slot_at d1 (i + 1)))
                            [unat pos..<unat (size_m c1)] (data_m c1)\<rparr>
      else c)"

text \<open>\<open>erase(il)\<close> (lines 471-476) and \<open>erase_all(key)\<close> (lines 478-485).\<close>

definition erase_il :: "('k, 'v) vectormap \<Rightarrow> size_type list \<Rightarrow> ('k, 'v) vectormap" where
  "erase_il c il = fold (\<lambda>elem c'. erase c' elem) il c"

definition erase_all :: "('k, 'v) vectormap \<Rightarrow> 'k \<Rightarrow> ('k, 'v) vectormap" where
  "erase_all c key = fold (\<lambda>it c'. erase c' (snd it)) (rev (get_all c key)) c"

text \<open>
  \<open>move(from, to)\<close> (lines 487-499): a gap of one slot at \<open>to\<close>, then
  \<open>data_[from + 1]\<close> is moved into it, and the loop
  \<open>for (i = from + 1; i < size_; ++i)\<close> moves \<open>data_[i + 1]\<close> into
  \<open>data_[i]\<close>; last, \<open>size_\<close> is decreased.
\<close>

definition move :: "size_type \<Rightarrow> ('k, 'v) vectormap \<Rightarrow> size_type \<Rightarrow> size_type \<Rightarrow> ('k, 'v) vectormap" where
  "move \<delta> c frm to =
     (if frm < size_m c \<and> to < size_m c
      then
        let c1 = snd (gap_m \<delta> c to 1);
            d1 = construct (data_m c1) (unat to) (slot_at (data_m c1) (unat (frm + 1)));
            d2 = destroy d1 (unat frm + 1);
            d3 = fold (\<lambda>i d. destroy (construct d i (slot_at d (i + 1))) (i + 1))
                   [unat (frm + 1)..<unat (size_m c1)] d2
        in c1\<lparr>data_m := d3, size_m := size_m c1 - 1\<rparr>
      else c)"

text \<open>\<open>swap(from, to)\<close> (lines 501-512).\<close>

definition swap_pos :: "('k, 'v) vectormap \<Rightarrow> size_type \<Rightarrow> size_type \<Rightarrow> ('k, 'v) vectormap" where
  "swap_pos c frm to =
     (if frm < size_m c \<and> to < size_m c
      then
        let temp = slot_at (data_m c) (unat to);
            d1 = destroy (data_m c) (unat to);
            d2 = construct d1 (unat to) (slot_at d1 (unat frm));
            d3 = destroy d2 (unat frm);
            d4 = construct d3 (unat frm) temp
        in c\<lparr>data_m := d4\<rparr>
      else c)"

subsection \<open>Operations on two objects\<close>

text \<open>
  Where the source compares or aliases objects, the objects live in a store, addressed by
  numbers: \<open>this\<close> and \<open>other\<close> are addresses, and \<open>this \<noteq> other\<close> is the test
  \<open>this != &other\<close>.
\<close>

type_synonym ('k, 'v) store = "nat \<Rightarrow> ('k, 'v) vectormap"

text \<open>
  Copy assignment (lines 552-566): \<open>clear()\<close>, \<open>reserve(other.size_)\<close> when
  \<open>other.size_ > capacity_\<close>, then the loop constructing the copies. No statement of it
  assigns \<open>size_\<close>.
\<close>

definition assign_copy :: "size_type \<Rightarrow> ('k, 'v) store \<Rightarrow> nat \<Rightarrow> nat \<Rightarrow> ('k, 'v) store" where
  "assign_copy \<delta> s this other =
     (if this \<noteq> other
      then
        let c1 = clear (s this);
            c2 = (if size_m (s other) > capacity_m c1
                  then snd (reserve \<delta> c1 (size_m (s other))) else c1);
            c3 = c2\<lparr>data_m := fold (\<lambda>i d. construct d i (slot_at (data_m (s other)) i))
                                  [0..<unat (size_m (s other))] (data_m c2)\<rparr>
        in s(this := c3)
      else s)"

text \<open>
  Move assignment (lines 568-576), statement by statement:
  \<open>data_ = std::exchange(other.data_, nullptr)\<close>,
  \<open>size_ = std::exchange(other.size_, 0)\<close>,
  \<open>std::swap(other.capacity_, capacity_)\<close>.
\<close>

definition assign_move :: "('k, 'v) store \<Rightarrow> nat \<Rightarrow> nat \<Rightarrow> ('k, 'v) store" where
  "assign_move s this other =
     (let old_data = data_m (s other);
          s1 = s(other := (s other)\<lparr>data_m := None\<rparr>);
          s2 = s1(this := (s1 this)\<lparr>data_m := old_data\<rparr>);
          old_size = size_m (s2 other);
          s3 = s2(other := (s2 other)\<lparr>size_m := 0\<rparr>);
          s4 = s3(this := (s3 this)\<lparr>size_m := old_size\<rparr>);
          tmp = capacity_m (s4 other);
          s5 = s4(other := (s4 other)\<lparr>capacity_m := capacity_m (s4 this)\<rparr>);
          s6 = s5(this := (s5 this)\<lparr>capacity_m := tmp\<rparr>)
      in s6)"

text \<open>\<open>swap(a, b)\<close> (lines 514-520).\<close>

definition swap_maps :: "('k, 'v) store \<Rightarrow> nat \<Rightarrow> nat \<Rightarrow> ('k, 'v) store" where
  "swap_maps s a b =
     (let ca = s a; cb = s b;
          s1 = s(a := ca\<lparr>data_m := data_m cb, size_m := size_m cb, capacity_m := capacity_m cb\<rparr>)
      in s1(b := cb\<lparr>data_m := data_m ca, size_m := size_m ca, capacity_m := capacity_m ca\<rparr>))"

text \<open>
  \<open>insert(map, pos)\<close> called with \<open>*this\<close> as \<open>map\<close>: the length of the gap is the
  size before the call, and the loop then reads \<open>map.size_\<close> and \<open>map.data_\<close> of the
  container it is writing.
\<close>

definition insert_self :: "size_type \<Rightarrow> ('k, 'v) vectormap \<Rightarrow> size_type \<Rightarrow> iterator \<times> ('k, 'v) vectormap" where
  "insert_self \<delta> c pos =
     (if pos > size_m c then (end_m c, c)
      else
        let g = gap_m \<delta> c pos (size_m c)
        in if fst g
           then (Iterator (unat pos),
                 (snd g)\<lparr>data_m := fold (\<lambda>i d. construct d (unat pos + i) (slot_at d i))
                                    [0..<unat (size_m (snd g))] (data_m (snd g))\<rparr>)
           else (end_m (snd g), snd g))"

subsection \<open>Programs over containers\<close>

text \<open>
  A sequence of public operations is a sequence of steps on a store of containers. It
  starts with every object default-constructed; a constructor step puts a new object at an
  address, every other step calls a member function on the object at an address.
  \<open>push_back\<close> and \<open>push_front\<close> are \<open>insert\<close> at \<open>size_\<close> and at \<open>0\<close>. The
  members whose bodies do not compile once instantiated (\<open>erase(key)\<close>, \<open>set\<close>,
  \<open>set_key\<close>, the keyed \<open>set_value\<close>) have no step, and the accessors change
  nothing; an assignment through the reference that \<open>get_value(pos)\<close> returns is a
  step of its own.

  A step that opens a gap asks that the new element count, rounded up to the next chunk,
  fits \<open>size_type\<close>: no buffer of more elements can exist in a 64-bit address space.
\<close>

definition fits :: "size_type \<Rightarrow> ('k, 'v) vectormap \<Rightarrow> nat \<Rightarrow> bool" where
  "fits \<delta> c n = (unat (size_m c) + n + unat \<delta> < 2 ^ 64)"

inductive reachable :: "size_type \<Rightarrow> 'k option \<Rightarrow> 'v option \<Rightarrow> ('k, 'v) store \<Rightarrow> bool"
  for \<delta> :: size_type and k0 :: "'k option" and v0 :: "'v option" where
  start: "reachable \<delta> k0 v0 (\<lambda>a. vectormap_default k0 v0)"
| new_default: "reachable \<delta> k0 v0 s \<Longrightarrow> reachable \<delta> k0 v0 (s(a := vectormap_default k0 v0))"
| new_il: "reachable \<delta> k0 v0 s \<Longrightarrow> length il + unat \<delta> < 2 ^ 64
    \<Longrightarrow> reachable \<delta> k0 v0 (s(a := vectormap_il \<delta> k0 v0 il))"
| new_copy: "reachable \<delta> k0 v0 s \<Longrightarrow> a \<noteq> b
    \<Longrightarrow> reachable \<delta> k0 v0 (s(a := vectormap_copy k0 v0 (s b)))"
| new_move: "reachable \<delta> k0 v0 s \<Longrightarrow> a \<noteq> b
    \<Longrightarrow> reachable \<delta> k0 v0 (s(a := fst (vectormap_move k0 v0 (s b)),
                              b := snd (vectormap_move k0 v0 (s b))))"
| step_insert_val: "reachable \<delta> k0 v0 s \<Longrightarrow> fits \<delta> (s a) 1
    \<Longrightarrow> reachable \<delta> k0 v0 (s(a := snd (insert_val \<delta> (s a) val pos)))"
| step_insert_key_val: "reachable \<delta> k0 v0 s \<Longrightarrow> fits \<delta> (s a) 1
    \<Longrightarrow> reachable \<delta> k0 v0 (s(a := snd (insert_key_val \<delta> (s a) key v pos)))"
| step_insert_il: "reachable \<delta> k0 v0 s \<Longrightarrow> fits \<delta> (s a) (length il)
    \<Longrightarrow> reachable \<delta> k0 v0 (s(a := snd (insert_il \<delta> (s a) il pos)))"
| step_insert_map: "reachable \<delta> k0 v0 s \<Longrightarrow> a \<noteq> b \<Longrightarrow> fits \<delta> (s a) (unat (size_m (s b)))
    \<Longrightarrow> reachable \<delta> k0 v0 (s(a := snd (insert_map \<delta> (s a) (s b) pos)))"
| step_insert_self: "reachable \<delta> k0 v0 s \<Longrightarrow> fits \<delta> (s a) (unat (size_m (s a)))
    \<Longrightarrow> reachable \<delta> k0 v0 (s(a := snd (insert_self \<delta> (s a) pos)))"
| step_set_value_at: "reachable \<delta> k0 v0 s
    \<Longrightarrow> reachable \<delta> k0 v0 (s(a := set_value_at (s a) v pos))"
| step_write_value: "reachable \<delta> k0 v0 s
    \<Longrightarrow> reachable \<delta> k0 v0 (s(a := write_value (s a) (fst (get_value_at (s a) pos)) v))"
| step_clear: "reachable \<delta> k0 v0 s \<Longrightarrow> reachable \<delta> k0 v0 (s(a := clear (s a)))"
| step_erase: "reachable \<delta> k0 v0 s \<Longrightarrow> reachable \<delta> k0 v0 (s(a := erase (s a) pos))"
| step_erase_il: "reachable \<delta> k0 v0 s \<Longrightarrow> reachable \<delta> k0 v0 (s(a := erase_il (s a) ps))"
| step_erase_all: "reachable \<delta> k0 v0 s \<Longrightarrow> reachable \<delta> k0 v0 (s(a := erase_all (s a) key))"
| step_move: "reachable \<delta> k0 v0 s \<Longrightarrow> fits \<delta> (s a) 1
    \<Longrightarrow> reachable \<delta> k0 v0 (s(a := move \<delta> (s a) frm to))"
| step_swap_pos: "reachable \<delta> k0 v0 s \<Longrightarrow> reachable \<delta> k0 v0 (s(a := swap_pos (s a) frm to))"
| step_swap_maps: "reachable \<delta> k0 v0 s \<Longrightarrow> reachable \<delta> k0 v0 (swap_maps s a b)"
| step_reserve: "reachable \<delta> k0 v0 s
    \<Longrightarrow> reachable \<delta> k0 v0 (s(a := snd (reserve \<delta> (s a) min_capacity)))"
| step_shrink: "reachable \<delta> k0 v0 s \<Longrightarrow> reachable \<delta> k0 v0 (s(a := snd (shrink (s a))))"
| step_resize: "reachable \<delta> k0 v0 s
    \<Longrightarrow> reachable \<delta> k0 v0 (s(a := snd (resize (s a) new_capacity)))"
| step_assign_copy: "reachable \<delta> k0 v0 s \<Longrightarrow> reachable \<delta> k0 v0 (assign_copy \<delta> s a b)"
| step_assign_move: "reachable \<delta> k0 v0 s \<Longrightarrow> reachable \<delta> k0 v0 (assign_move s a b)"

subsection \<open>Matches of a key\<close>

text \<open>
  The positions whose entry has the key, in ascending order: the matches that the
  ordinal of a lookup ranks from 1.
\<close>

definition matches :: "('k, 'v) vectormap \<Rightarrow> 'k \<Rightarrow> nat list" where
  "matches c key = filter (\<lambda>i. key_is (data_m c) i key) [0..<unat (size_m c)]"

definition result_at :: "nat \<Rightarrow> iterator \<times> size_type" where
  "result_at i = (Iterator i, of_nat i)"

subsection \<open>Sample containers\<close>

text \<open>
  Containers of \<open>vectormap<std::string, int>\<close>, with the default chunk size 100.
  Default-initialisation leaves the empty string in a \<open>std::string\<close> and an
  indeterminate value in an \<open>int\<close>.
\<close>

definition empty_map :: "(string, int) vectormap" where
  "empty_map = vectormap_default (Some []) None"

definition abc :: "(string, int) vectormap" where
  "abc = vectormap_il 100 (Some []) None [(''a'', 1), (''b'', 2), (''c'', 3)]"

definition abcd :: "(string, int) vectormap" where
  "abcd = vectormap_il 100 (Some []) None [(''a'', 1), (''b'', 2), (''c'', 3), (''d'', 4)]"

definition pq :: "(string, int) vectormap" where
  "pq = vectormap_il 100 (Some []) None [(''p'', 5), (''q'', 6)]"

definition sixty :: "(string, int) vectormap" where
  "sixty = vectormap_il 100 (Some []) None (replicate 60 (''k'', 0))"

text \<open>
  A program: the object at address 0 is constructed from the list \<open>a, b, c\<close>, then
  \<open>insert({"x", 7}, 1)\<close> is called on it.
\<close>

definition one_map :: "(string, int) store" where
  "one_map = (\<lambda>a. vectormap_default (Some []) None)(0 := abc)"

definition grown_map :: "(string, int) store" where
  "grown_map = one_map(0 := snd (insert_val 100 (one_map 0) (''x'', 7) 1))"

text \<open>Two objects: \<open>pq\<close> at address 0 (and everywhere else), \<open>abc\<close> at address 1.\<close>

definition two_maps :: "(string, int) store" where
  "two_maps = (\<lambda>a. pq)(Suc 0 := abc)"

section \<open>Properties\<close>

subsection \<open>The gap and the insertion of a sequence\<close>

text \<open>
  C1. A gap of length 2 at position 1 of the three entries \<open>a, b, c\<close> succeeds and
  makes the size 5, but its loop runs down to position \<open>from + 1\<close>, not to
  \<open>from + length\<close>: it also moves the entry of position 0 into the gap and destroys it
  at position 0. After \<open>insert({x, y}, 1)\<close> the container is not
  \<open>a, x, y, b, c\<close>: position 0 holds no entry.
\<close>

theorem gap_destroys_prefix:
  "fst (gap_m 100 abc 1 2) \<and> size_m (snd (gap_m 100 abc 1 2)) = 5
   \<and> live abc = [Some (''a'', 1), Some (''b'', 2), Some (''c'', 3)]
   \<and> live (snd (gap_m 100 abc 1 2))
       = [None, None, Some (''a'', 1), Some (''b'', 2), Some (''c'', 3)]
   \<and> live (snd (insert_il 100 abc [(''x'', 7), (''y'', 8)] 1))
       = [None, Some (''x'', 7), Some (''y'', 8), Some (''b'', 2), Some (''c'', 3)]"
  by code_simp

subsection \<open>Copy assignment\<close>

text \<open>
  C2. After the copy assignment \<open>pq = abc\<close> of two distinct objects the destination has
  size 0 and no live entry, while the source has size 3: the copies are constructed in
  the buffer, but \<open>size_\<close> stays at the 0 that \<open>clear()\<close> left.
\<close>

theorem assign_copy_size_zero:
  "size_m (assign_copy 100 two_maps 0 1 0) = 0
   \<and> live (assign_copy 100 two_maps 0 1 0) = []
   \<and> size_m (assign_copy 100 two_maps 0 1 1) = 3
   \<and> live (assign_copy 100 two_maps 0 1 1)
       = [Some (''a'', 1), Some (''b'', 2), Some (''c'', 3)]
   \<and> map (slot_at (data_m (assign_copy 100 two_maps 0 1 0))) [0, 1, 2]
       = [Some (''a'', 1), Some (''b'', 2), Some (''c'', 3)]"
  by code_simp

subsection \<open>Move assignment\<close>

text \<open>
  C3. After the move assignment \<open>pq = std::move(abc)\<close> the destination holds the
  entries of the source, and the source has size 0 and no buffer, but its capacity is the
  100 the destination had before: the capacities are swapped, not exchanged with 0.
  The move constructor does leave the source with capacity 0.
\<close>

theorem assign_move_source_capacity:
  "live (assign_move two_maps 0 1 0) = [Some (''a'', 1), Some (''b'', 2), Some (''c'', 3)]
   \<and> size_m (assign_move two_maps 0 1 1) = 0
   \<and> data_m (assign_move two_maps 0 1 1) = None
   \<and> capacity_m (assign_move two_maps 0 1 1) = 100
   \<and> capacity_m (snd (vectormap_move (Some []) None abc)) = 0"
  by code_simp

subsection \<open>reserve\<close>

text \<open>
  C4, as the source has it. \<open>reserve(250)\<close> on the empty container gives capacity 300,
  and \<open>reserve(50)\<close> after it succeeds and gives capacity 100, not 300.
\<close>

theorem reserve_shrinks:
  "fst (reserve 100 empty_map 250)
   \<and> capacity_m (snd (reserve 100 empty_map 250)) = 300
   \<and> fst (reserve 100 (snd (reserve 100 empty_map 250)) 50)
   \<and> capacity_m (snd (reserve 100 (snd (reserve 100 empty_map 250)) 50)) = 100
   \<and> capacity_m (snd (reserve 100 (snd (reserve 100 empty_map 250)) 50)) \<noteq> 300"
  by code_simp

lemma size_m_resize: "size_m (snd (resize c n)) = size_m c"
  by (simp add: resize_def Let_def)

lemma capacity_m_resize:
  "capacity_m (snd (resize c n)) = (if fst (resize c n) then n else capacity_m c)"
  by (simp add: resize_def Let_def)

lemma fst_resize: "fst (resize c n) = (\<not> n < size_m c)"
  by (simp add: resize_def Let_def)

lemma size_m_reserve: "size_m (snd (reserve \<delta> c n)) = size_m c"
  by (simp add: reserve_def size_m_resize)

lemma capacity_m_reserve:
  "capacity_m (snd (reserve \<delta> c n))
   = (if fst (reserve \<delta> c n) then (n div \<delta> + 1) * \<delta> else capacity_m c)"
  by (simp add: reserve_def capacity_m_resize)

lemma fst_reserve:
  "fst (reserve \<delta> c n) = (\<not> n < size_m c \<and> \<not> (n div \<delta> + 1) * \<delta> < size_m c)"
  by (simp add: reserve_def fst_resize)

text \<open>
  C4, amended. With chunk size 100 and a size of at most 250, \<open>reserve(250)\<close> succeeds
  and the capacity is 300. A \<open>reserve(50)\<close> after it succeeds exactly when the size is
  at most 50, and then the capacity is 100; otherwise it fails and the capacity stays 300.
  In general a successful \<open>reserve(n)\<close> sets the capacity to
  \<open>(n / delta_ + 1) * delta_\<close>, whatever it was before.
\<close>

theorem reserve_250_then_50:
  assumes "size_m c \<le> 250"
  shows "fst (reserve 100 c 250) \<and> capacity_m (snd (reserve 100 c 250)) = 300
         \<and> fst (reserve 100 (snd (reserve 100 c 250)) 50) = (size_m c \<le> 50)
         \<and> capacity_m (snd (reserve 100 (snd (reserve 100 c 250)) 50))
             = (if size_m c \<le> 50 then 100 else 300)
         \<and> capacity_m (snd (reserve \<delta> c n))
             = (if fst (reserve \<delta> c n) then (n div \<delta> + 1) * \<delta> else capacity_m c)"
proof -
  have a: "\<not> 250 < size_m c" and b: "\<not> 300 < size_m c"
    using assms by (simp_all add: word_le_nat_alt word_less_nat_alt)
  have first: "fst (reserve 100 c 250)"
    using a b by (simp add: fst_reserve)
  then have cap: "capacity_m (snd (reserve 100 c 250)) = 300"
    by (simp add: capacity_m_reserve)
  have "\<not> 100 < size_m c" if "size_m c \<le> 50"
    using that by (simp add: word_le_nat_alt word_less_nat_alt)
  then have second: "fst (reserve 100 (snd (reserve 100 c 250)) 50) = (size_m c \<le> 50)"
    by (auto simp add: fst_reserve size_m_reserve not_less)
  have "capacity_m (snd (reserve 100 (snd (reserve 100 c 250)) 50))
        = (if size_m c \<le> 50 then 100 else 300)"
    using second cap by (simp add: capacity_m_reserve[of 100 _ 50])
  with first cap second show ?thesis
    by (simp add: capacity_m_reserve[of \<delta> c n])
qed

theorem reserve_250_then_50_witness:
  "size_m empty_map \<le> 250
   \<and> capacity_m (snd (reserve 100 empty_map 250)) = 300
   \<and> fst (reserve 100 (snd (reserve 100 empty_map 250)) 50)
   \<and> capacity_m (snd (reserve 100 (snd (reserve 100 empty_map 250)) 50)) = 100
   \<and> size_m sixty \<le> 250
   \<and> capacity_m (snd (reserve 100 sixty 250)) = 300
   \<and> \<not> fst (reserve 100 (snd (reserve 100 sixty 250)) 50)
   \<and> capacity_m (snd (reserve 100 (snd (reserve 100 sixty 250)) 50)) = 300"
proof -
  have e: "size_m empty_map \<le> 250" and e50: "size_m empty_map \<le> 50"
    by code_simp+
  have s: "size_m sixty \<le> 250" and s50: "\<not> size_m sixty \<le> 50"
    by code_simp+
  from reserve_250_then_50[OF e] e50 reserve_250_then_50[OF s] s50 e s
  show ?thesis by simp
qed

subsection \<open>move\<close>

text \<open>
  C5. \<open>move(0, 2)\<close> on the four entries \<open>a, b, c, d\<close> leaves them in the order
  \<open>a, b, c, d\<close>, not \<open>b, c, a, d\<close>: after the gap at \<open>to\<close> the source moves
  \<open>data_[from + 1]\<close> into it, which is the entry of \<open>from\<close> only when
  \<open>to <= from\<close>. In the other direction \<open>move(2, 0)\<close> gives \<open>c, a, b, d\<close>.
\<close>

theorem move_forward_keeps_order:
  "live abcd = [Some (''a'', 1), Some (''b'', 2), Some (''c'', 3), Some (''d'', 4)]
   \<and> size_m (move 100 abcd 0 2) = 4
   \<and> live (move 100 abcd 0 2)
       = [Some (''a'', 1), Some (''b'', 2), Some (''c'', 3), Some (''d'', 4)]
   \<and> live (move 100 abcd 2 0)
       = [Some (''c'', 3), Some (''a'', 1), Some (''b'', 2), Some (''d'', 4)]"
  by code_simp

subsection \<open>insert past the end\<close>

text \<open>
  C6. \<open>insert(val, pos)\<close> with \<open>pos > size()\<close> returns \<open>end()\<close> and the container
  is the one it was: size, capacity, buffer and all.
\<close>

theorem insert_past_end:
  "size_m c < pos \<Longrightarrow> insert_val \<delta> c val pos = (end_m c, c)"
  by (simp add: insert_val_def)

theorem insert_past_end_witness:
  "size_m abc < 7 \<and> insert_val 100 abc (''x'', 7) 7 = (end_m abc, abc)"
proof -
  have h: "size_m abc < 7" by code_simp
  from insert_past_end[OF h] h show ?thesis by simp
qed

subsection \<open>Lookup by key\<close>

lemma unat_bound: "unat (w :: size_type) < 18446744073709551616"
  using unsigned_less[of w, where 'a = nat] by simp

lemma unat_succ:
  "unat (w :: size_type) < 18446744073709551615 \<Longrightarrow> unat (w + 1) = unat w + 1"
  by (simp add: unat_word_ariths)

lemma unat_succ_le: "unat (w + 1 :: size_type) \<le> unat w + 1"
  by (simp add: unat_word_ariths)

lemma unat_npos: "unat npos = 18446744073709551615"
  by (simp add: npos_def)

lemma zero_minus_one: "(0 - 1 :: size_type) = npos"
  by (simp add: npos_def)

lemma of_nat_neq_max:
  assumes "n < 18446744073709551615"
  shows "(of_nat n :: size_type) \<noteq> 0 - 1"
proof
  assume "(of_nat n :: size_type) = 0 - 1"
  then have "unat (of_nat n :: size_type) = unat npos" by (simp only: zero_minus_one)
  with assms show False by (simp add: unat_of_nat unat_npos)
qed

lemma of_nat_eq_pred:
  assumes "n < 18446744073709551616" and "0 < unat m"
  shows "((of_nat n :: size_type) = m - 1) = (n = unat m - 1)"
proof -
  have "m \<noteq> 0" using assms(2) by auto
  then have m1: "unat (m - 1) = unat m - 1" by (simp add: unat_minus_one)
  have n1: "unat (of_nat n :: size_type) = n" using assms(1) by (simp add: unat_of_nat)
  show ?thesis
  proof
    assume "(of_nat n :: size_type) = m - 1"
    then have "unat (of_nat n :: size_type) = unat (m - 1)" by simp
    with m1 n1 show "n = unat m - 1" by simp
  next
    assume "n = unat m - 1"
    with m1 have "n = unat (m - 1)" by simp
    then show "(of_nat n :: size_type) = m - 1" by simp
  qed
qed

lemma fold_collect:
  "fold (\<lambda>i out. if P i then out @ [f i] else out) xs acc = acc @ map f (filter P xs)"
  by (induction xs arbitrary: acc) auto

lemma get_all_matches: "get_all c key = map result_at (matches c key)"
  unfolding get_all_def matches_def result_at_def by (simp add: fold_collect)

text \<open>
  The loop of \<open>get\<close> with \<open>number = 0\<close>: \<open>number - 1\<close> is \<open>npos\<close>, which
  \<open>out.size()\<close> never reaches, so the first branch is never taken.
\<close>

lemma get_loop_tail:
  assumes "unat order + length is \<le> 18446744073709551616"
    and "length out + length is \<le> 18446744073709551615"
  shows "get_loop d key ordinal 0 is order out
         = out @ map result_at (drop (unat ordinal - unat order) (filter (\<lambda>i. key_is d i key) is))"
  using assms
proof (induction "is" arbitrary: order out)
  case Nil
  then show ?case by simp
next
  case (Cons i "is")
  show ?case
  proof (cases "key_is d i key")
    case False
    with Cons.IH[of order out] Cons.prems show ?thesis by simp
  next
    case match: True
    have pre1: "unat (order + 1) + length is \<le> 18446744073709551616"
      using Cons.prems(1) unat_succ_le[of order] by simp
    have len: "length out < 18446744073709551615" using Cons.prems(2) by simp
    show ?thesis
    proof (cases "ordinal \<le> order")
      case True
      have pre2: "length (out @ [result_at i]) + length is \<le> 18446744073709551615"
        using Cons.prems(2) by simp
      have step: "get_loop d key ordinal 0 (i # is) order out
                  = get_loop d key ordinal 0 is (order + 1) (out @ [result_at i])"
        using match True of_nat_neq_max[OF len] by (simp add: result_at_def)
      have rest: "drop (unat ordinal - unat (order + 1)) (filter (\<lambda>i. key_is d i key) is)
                  = filter (\<lambda>i. key_is d i key) is"
      proof (cases "is")
        case Nil
        then show ?thesis by simp
      next
        case (Cons j js)
        with Cons.prems(1) have "unat order < 18446744073709551615" by simp
        then have "unat (order + 1) = unat order + 1" by (rule unat_succ)
        moreover have "unat ordinal \<le> unat order" using True by (simp add: word_le_nat_alt)
        ultimately show ?thesis by simp
      qed
      have "unat ordinal - unat order = 0" using True by (simp add: word_le_nat_alt)
      with step Cons.IH[OF pre1 pre2] rest match show ?thesis by simp
    next
      case False
      then have lt: "unat order < unat ordinal" by (simp add: word_le_nat_alt)
      with unat_bound[of ordinal] have "unat order < 18446744073709551615" by simp
      then have suc: "unat (order + 1) = unat order + 1" by (rule unat_succ)
      have pre2: "length out + length is \<le> 18446744073709551615"
        using Cons.prems(2) by simp
      have step: "get_loop d key ordinal 0 (i # is) order out
                  = get_loop d key ordinal 0 is (order + 1) out"
        using match False by simp
      from lt have "unat ordinal - unat order = Suc (unat ordinal - (unat order + 1))" by simp
      with step Cons.IH[OF pre1 pre2] suc match show ?thesis by simp
    qed
  qed
qed

text \<open>
  The loop of \<open>get\<close> with \<open>ordinal = 1\<close> and a \<open>number\<close> that the positions
  left cannot exceed: the first branch is taken at the last position at the earliest.
\<close>

lemma get_loop_full:
  assumes "1 \<le> unat order"
    and "unat order + length is \<le> 18446744073709551616"
    and "length out + length is \<le> unat number"
  shows "get_loop d key 1 number is order out
         = out @ map result_at (filter (\<lambda>i. key_is d i key) is)"
  using assms
proof (induction "is" arbitrary: order out)
  case Nil
  then show ?case by simp
next
  case (Cons i "is")
  show ?case
  proof (cases "key_is d i key")
    case False
    with Cons.IH[of order out] Cons.prems show ?thesis by simp
  next
    case match: True
    have ord: "1 \<le> order" using Cons.prems(1) by (simp add: word_le_nat_alt)
    have num: "0 < unat number" using Cons.prems(3) by simp
    have len: "length out < 18446744073709551616"
      using Cons.prems(3) unat_bound[of number] by simp
    note test = of_nat_eq_pred[OF len num]
    show ?thesis
    proof (cases "length out = unat number - 1")
      case True
      with Cons.prems(3) num have "is = []" by simp
      with match ord test True show ?thesis by (simp add: result_at_def)
    next
      case False
      have step: "get_loop d key 1 number (i # is) order out
                  = get_loop d key 1 number is (order + 1) (out @ [result_at i])"
        using match ord test False by (simp add: result_at_def)
      show ?thesis
      proof (cases "is")
        case Nil
        with step match show ?thesis by simp
      next
        case (Cons j js)
        with Cons.prems(2) have "unat order < 18446744073709551615" by simp
        then have suc: "unat (order + 1) = unat order + 1" by (rule unat_succ)
        have p1: "1 \<le> unat (order + 1)" using suc by simp
        have p2: "unat (order + 1) + length is \<le> 18446744073709551616"
          using suc Cons.prems(2) by simp
        have p3: "length (out @ [result_at i]) + length is \<le> unat number"
          using Cons.prems(3) by simp
        from step Cons.IH[OF p1 p2 p3] match show ?thesis by simp
      qed
    qed
  qed
qed

text \<open>
  C8. \<open>get_all(key)\<close> and \<open>get(key, 1, size())\<close> return the same number of
  results.
\<close>

theorem get_all_count_eq_get_size:
  "length (get_all c key) = length (get c key 1 (size_m c))"
proof -
  have "get c key 1 (size_m c) = map result_at (matches c key)"
    unfolding get_def matches_def
    using get_loop_full[of 1 "[0..<unat (size_m c)]" "[]" "size_m c"] unat_bound[of "size_m c"]
    by simp
  then show ?thesis by (simp add: get_all_matches)
qed

text \<open>
  C10. \<open>get(key, ordinal, 0)\<close> returns the matches of \<open>key\<close> from the one of rank
  \<open>ordinal\<close> on, each with its iterator and position, in ascending position order:
  the matches without the first \<open>ordinal - 1\<close>.
\<close>

theorem get_number_zero_full_tail:
  "get c key ordinal 0 = map result_at (drop (unat ordinal - 1) (matches c key))"
proof -
  have "unat (1 :: size_type) + length [0..<unat (size_m c)] \<le> 18446744073709551616"
    using unat_bound[of "size_m c"] by simp
  moreover have "length ([] :: (iterator \<times> size_type) list) + length [0..<unat (size_m c)]
                 \<le> 18446744073709551615"
    using unat_bound[of "size_m c"] by simp
  ultimately show ?thesis
    unfolding get_def matches_def using get_loop_tail[of 1 "[0..<unat (size_m c)]" "[]"] by simp
qed

subsection \<open>Size and capacity\<close>

text \<open>Rounding up to the next chunk, on numbers and on \<open>size_type\<close> without overflow.\<close>

lemma nat_round_up_gt: "0 < (d::nat) \<Longrightarrow> n < (n div d + 1) * d"
  using dividend_less_times_div[of d n] by (simp add: mult.commute)

lemma nat_round_up_le: "(n div d + 1) * d \<le> n + (d::nat)"
proof -
  have "n div d * d \<le> n" by simp
  then show ?thesis by (simp add: add_mult_distrib)
qed

lemma unat_add_small:
  fixes a b :: size_type
  assumes "unat a + unat b < 18446744073709551616"
  shows "unat (a + b) = unat a + unat b"
proof -
  have "unat a + unat b < 2 ^ LENGTH(64)" using assms by simp
  then show ?thesis by (simp only: unat_add_lem[THEN iffD1])
qed

lemma unat_mult_small:
  fixes a b :: size_type
  assumes "unat a * unat b < 18446744073709551616"
  shows "unat (a * b) = unat a * unat b"
proof -
  have "unat a * unat b < 2 ^ LENGTH(64)" using assms by simp
  then show ?thesis by (simp only: unat_mult_lem[THEN iffD1])
qed


lemma round_up_gt:
  fixes s \<delta> :: size_type
  assumes "0 < \<delta>" and "unat s + unat \<delta> < 18446744073709551616"
  shows "s < (s div \<delta> + 1) * \<delta>"
proof -
  let ?q = "unat s div unat \<delta>"
  have d: "0 < unat \<delta>" using assms(1) by (simp add: word_less_nat_alt)
  have q: "unat (s div \<delta>) = ?q" by (simp only: unat_div)
  have qle: "?q \<le> unat s" by (rule div_le_dividend)
  have one: "1 \<le> unat \<delta>" using d by simp
  have "?q + 1 \<le> unat s + unat \<delta>" by (rule add_le_mono[OF qle one])
  then have "?q + 1 < 18446744073709551616" using assms(2) by (rule le_less_trans)
  then have "unat (s div \<delta>) + unat (1 :: size_type) < 18446744073709551616"
    by (simp only: q unat_1)
  then have q1: "unat (s div \<delta> + 1) = ?q + 1"
    using q by (simp only: unat_add_small unat_1)
  have "(?q + 1) * unat \<delta> \<le> unat s + unat \<delta>" by (rule nat_round_up_le)
  then have "(?q + 1) * unat \<delta> < 18446744073709551616" using assms(2) by (rule le_less_trans)
  then have "unat (s div \<delta> + 1) * unat \<delta> < 18446744073709551616"
    by (simp only: q1)
  then have m: "unat ((s div \<delta> + 1) * \<delta>) = (?q + 1) * unat \<delta>"
    using q1 by (simp only: unat_mult_small)
  have "unat s < (?q + 1) * unat \<delta>" using d by (rule nat_round_up_gt)
  with m show ?thesis by (simp only: word_less_nat_alt)
qed


lemma size_m_gap: "size_m (snd (gap_m \<delta> c frm len)) = size_m c + len"
  by (simp add: gap_m_def Let_def size_m_reserve)

lemma capacity_m_gap:
  "capacity_m (snd (gap_m \<delta> c frm len))
   = (if capacity_m c < size_m c + len then capacity_m (snd (reserve \<delta> c (size_m c + len)))
      else capacity_m c)"
  by (simp add: gap_m_def Let_def)


lemma gap_size_le_capacity:
  assumes "0 < \<delta>" and "size_m c \<le> capacity_m c" and "fits \<delta> c (unat len)"
  shows "size_m (snd (gap_m \<delta> c frm len)) \<le> capacity_m (snd (gap_m \<delta> c frm len))"
proof (cases "capacity_m c < size_m c + len")
  case False
  then show ?thesis by (simp add: size_m_gap capacity_m_gap)
next
  case True
  let ?s = "size_m c + len"
  have all: "unat (size_m c) + unat len + unat \<delta> < 18446744073709551616"
    using assms(3) by (simp add: fits_def)
  have "unat (size_m c) + unat len < 18446744073709551616"
    by (rule le_less_trans[OF le_add1 all])
  then have s: "unat ?s = unat (size_m c) + unat len" by (rule unat_add_small)
  then have ge: "\<not> ?s < size_m c" by (simp add: word_less_nat_alt)
  have "unat ?s + unat \<delta> < 18446744073709551616" using all by (simp only: s)
  with assms(1) have gt: "?s < (?s div \<delta> + 1) * \<delta>" by (rule round_up_gt)
  have "size_m c \<le> ?s" using ge by simp
  with gt have "\<not> (?s div \<delta> + 1) * \<delta> < size_m c" by simp
  with ge have "fst (reserve \<delta> c ?s)" by (simp add: fst_reserve)
  with True gt show ?thesis by (simp add: size_m_gap capacity_m_gap capacity_m_reserve)
qed

lemma unat_of_nat_small:
  "n < 18446744073709551616 \<Longrightarrow> unat (of_nat n :: size_type) = n"
  by (simp add: unat_of_nat)

lemma fits_bound: "fits \<delta> c n \<Longrightarrow> n < 18446744073709551616"
  by (simp add: fits_def)

lemma insert_val_size_le_capacity:
  assumes "0 < \<delta>" and "size_m c \<le> capacity_m c" and "fits \<delta> c 1"
  shows "size_m (snd (insert_val \<delta> c val pos)) \<le> capacity_m (snd (insert_val \<delta> c val pos))"
  using assms gap_size_le_capacity[of \<delta> c 1 pos] by (simp add: insert_val_def Let_def)

lemma insert_il_size_le_capacity:
  assumes "0 < \<delta>" and "size_m c \<le> capacity_m c" and "fits \<delta> c (length il)"
  shows "size_m (snd (insert_il \<delta> c il pos)) \<le> capacity_m (snd (insert_il \<delta> c il pos))"
proof -
  have "unat (of_nat (length il) :: size_type) = length il"
    using fits_bound[OF assms(3)] by (rule unat_of_nat_small)
  with assms gap_size_le_capacity[of \<delta> c "of_nat (length il)" pos]
  show ?thesis by (simp add: insert_il_def Let_def)
qed

lemma insert_map_size_le_capacity:
  assumes "0 < \<delta>" and "size_m c \<le> capacity_m c" and "fits \<delta> c (unat (size_m m))"
  shows "size_m (snd (insert_map \<delta> c m pos)) \<le> capacity_m (snd (insert_map \<delta> c m pos))"
  using assms gap_size_le_capacity[of \<delta> c "size_m m" pos] by (simp add: insert_map_def Let_def)

lemma insert_self_size_le_capacity:
  assumes "0 < \<delta>" and "size_m c \<le> capacity_m c" and "fits \<delta> c (unat (size_m c))"
  shows "size_m (snd (insert_self \<delta> c pos)) \<le> capacity_m (snd (insert_self \<delta> c pos))"
  using assms gap_size_le_capacity[of \<delta> c "size_m c" pos] by (simp add: insert_self_def Let_def)

lemma move_size_le_capacity:
  assumes "0 < \<delta>" and "size_m c \<le> capacity_m c" and "fits \<delta> c 1"
  shows "size_m (move \<delta> c frm to) \<le> capacity_m (move \<delta> c frm to)"
proof (cases "frm < size_m c \<and> to < size_m c")
  case False
  with assms(2) show ?thesis by (auto simp add: move_def)
next
  case True
  have "unat (size_m c) + unat (1 :: size_type) < 18446744073709551616"
    using assms(3) by (simp add: fits_def)
  then have "unat (size_m c + 1) = unat (size_m c) + unat (1 :: size_type)"
    by (rule unat_add_small)
  then have "size_m c \<le> size_m c + 1" by (simp add: word_le_nat_alt)
  moreover have "size_m c + 1 \<le> capacity_m (snd (gap_m \<delta> c to 1))"
    using assms gap_size_le_capacity[of \<delta> c 1 to] by (simp add: size_m_gap)
  ultimately have "size_m c \<le> capacity_m (snd (gap_m \<delta> c to 1))" by (rule order_trans)
  with True show ?thesis by (simp add: move_def Let_def size_m_gap)
qed

lemma erase_size_le_capacity:
  assumes "size_m c \<le> capacity_m c"
  shows "size_m (erase c pos) \<le> capacity_m (erase c pos)"
proof (cases "size_m c > 0 \<and> pos < size_m c")
  case False
  with assms show ?thesis by (auto simp add: erase_def)
next
  case True
  then have "size_m c \<noteq> 0" by auto
  then have "unat (size_m c - 1) = unat (size_m c) - 1" by (simp add: unat_minus_one)
  then have "size_m c - 1 \<le> size_m c" by (simp add: word_le_nat_alt)
  from this assms have "size_m c - 1 \<le> capacity_m c" by (rule order_trans)
  with True show ?thesis by (simp add: erase_def Let_def)
qed

lemma fold_erase_size_le_capacity:
  "size_m c \<le> capacity_m c
   \<Longrightarrow> size_m (fold (\<lambda>x c'. erase c' (f x)) xs c) \<le> capacity_m (fold (\<lambda>x c'. erase c' (f x)) xs c)"
  by (induction xs arbitrary: c) (simp_all add: erase_size_le_capacity)

lemma resize_size_le_capacity:
  "size_m c \<le> capacity_m c
   \<Longrightarrow> size_m (snd (resize c n)) \<le> capacity_m (snd (resize c n))"
  by (simp add: size_m_resize capacity_m_resize fst_resize not_less)

lemma reserve_size_le_capacity:
  "size_m c \<le> capacity_m c
   \<Longrightarrow> size_m (snd (reserve \<delta> c n)) \<le> capacity_m (snd (reserve \<delta> c n))"
  by (simp add: reserve_def resize_size_le_capacity)

lemma il_fold_size:
  "fst (snd (fold (\<lambda>elem (d, sz, counter).
                     (construct d (unat counter) (Some elem), sz + 1, counter + 1))
               il (d0, s0, c0)))
   = s0 + (of_nat (length il) :: size_type)"
  by (induction il arbitrary: d0 s0 c0) (simp_all add: algebra_simps)

lemma size_m_vectormap_il: "size_m (vectormap_il \<delta> k0 v0 il) = of_nat (length il)"
  by (simp add: vectormap_il_def Let_def il_fold_size)

lemma capacity_m_vectormap_il:
  "capacity_m (vectormap_il \<delta> k0 v0 il)
   = (if \<delta> < of_nat (length il) then (of_nat (length il) div \<delta> + 1) * \<delta> else \<delta>)"
  by (simp add: vectormap_il_def Let_def)

lemma vectormap_il_size_le_capacity:
  assumes "0 < \<delta>" and "length il + unat \<delta> < 18446744073709551616"
  shows "size_m (vectormap_il \<delta> k0 v0 il) \<le> capacity_m (vectormap_il \<delta> k0 v0 il)"
proof (cases "\<delta> < (of_nat (length il) :: size_type)")
  case False
  then show ?thesis by (simp add: size_m_vectormap_il capacity_m_vectormap_il)
next
  case True
  have "length il < 18446744073709551616"
    by (rule le_less_trans[OF le_add1 assms(2)])
  then have "unat (of_nat (length il) :: size_type) = length il" by (rule unat_of_nat_small)
  with assms(2) have "unat (of_nat (length il) :: size_type) + unat \<delta> < 18446744073709551616"
    by simp
  with assms(1) have "(of_nat (length il) :: size_type) < (of_nat (length il) div \<delta> + 1) * \<delta>"
    by (rule round_up_gt)
  with True show ?thesis by (simp add: size_m_vectormap_il capacity_m_vectormap_il)
qed


lemma assign_copy_size_le_capacity:
  assumes "\<forall>x. size_m (s x) \<le> capacity_m (s x)"
  shows "size_m (assign_copy \<delta> s a b x) \<le> capacity_m (assign_copy \<delta> s a b x)"
  using assms by (simp add: assign_copy_def Let_def clear_def size_m_reserve)

lemma assign_move_size_le_capacity:
  assumes "\<forall>x. size_m (s x) \<le> capacity_m (s x)"
  shows "size_m (assign_move s a b x) \<le> capacity_m (assign_move s a b x)"
  using assms by (simp add: assign_move_def Let_def)

lemma swap_maps_size_le_capacity:
  assumes "\<forall>x. size_m (s x) \<le> capacity_m (s x)"
  shows "size_m (swap_maps s a b x) \<le> capacity_m (swap_maps s a b x)"
  using assms by (simp add: swap_maps_def Let_def)

lemma write_value_size_le_capacity:
  "size_m c \<le> capacity_m c
   \<Longrightarrow> size_m (write_value c r v) \<le> capacity_m (write_value c r v)"
  by (simp add: write_value_def split: reference.split option.split)

lemma set_value_at_size_le_capacity:
  "size_m c \<le> capacity_m c
   \<Longrightarrow> size_m (set_value_at c v pos) \<le> capacity_m (set_value_at c v pos)"
  by (simp add: set_value_at_def split: option.split)

text \<open>
  C7. In every store that a sequence of public operations reaches, every container has
  \<open>size_ <= capacity_\<close> (and \<open>0 <= size_\<close> holds of every \<open>size_type\<close>). The chunk
  size is not 0: \<open>reserve\<close> divides by it.
\<close>

theorem size_le_capacity:
  assumes "reachable \<delta> k0 v0 s" and "0 < \<delta>"
  shows "size_m (s a) \<le> capacity_m (s a)"
proof -
  have "\<forall>x. size_m (s x) \<le> capacity_m (s x)"
    using assms(1)
  proof (induction rule: reachable.induct)
    case start
    show ?case by (simp add: vectormap_default_def)
  next
    case (new_default s a)
    then show ?case by (simp add: vectormap_default_def)
  next
    case (new_il s il a)
    then show ?case using assms(2) by (simp add: vectormap_il_size_le_capacity)
  next
    case (new_copy s a b)
    then show ?case by (simp add: vectormap_copy_def)
  next
    case (new_move s a b)
    then show ?case by (simp add: vectormap_move_def)
  next
    case (step_insert_val s a val pos)
    then show ?case using assms(2) by (simp add: insert_val_size_le_capacity)
  next
    case (step_insert_key_val s a key v pos)
    then show ?case using assms(2)
      by (simp add: insert_key_val_def insert_val_size_le_capacity)
  next
    case (step_insert_il s a il pos)
    then show ?case using assms(2) by (simp add: insert_il_size_le_capacity)
  next
    case (step_insert_map s a b pos)
    then show ?case using assms(2) by (simp add: insert_map_size_le_capacity)
  next
    case (step_insert_self s a pos)
    then show ?case using assms(2) by (simp add: insert_self_size_le_capacity)
  next
    case (step_set_value_at s a v pos)
    then show ?case by (simp add: set_value_at_size_le_capacity)
  next
    case (step_write_value s a pos v)
    then show ?case by (simp add: write_value_size_le_capacity)
  next
    case (step_clear s a)
    then show ?case by (simp add: clear_def)
  next
    case (step_erase s a pos)
    then show ?case by (simp add: erase_size_le_capacity)
  next
    case (step_erase_il s a ps)
    then show ?case
      using fold_erase_size_le_capacity[of "s a" "\<lambda>x. x" ps] by (simp add: erase_il_def)
  next
    case (step_erase_all s a key)
    then show ?case
      using fold_erase_size_le_capacity[of "s a" snd "rev (get_all (s a) key)"]
      by (simp add: erase_all_def)
  next
    case (step_move s a frm to)
    then show ?case using assms(2) by (simp add: move_size_le_capacity)
  next
    case (step_swap_pos s a frm to)
    then show ?case by (simp add: swap_pos_def Let_def)
  next
    case (step_swap_maps s a b)
    then show ?case by (simp add: swap_maps_size_le_capacity)
  next
    case (step_reserve s a min_capacity)
    then show ?case by (simp add: reserve_size_le_capacity)
  next
    case (step_shrink s a)
    then show ?case by (simp add: shrink_def resize_size_le_capacity)
  next
    case (step_resize s a new_capacity)
    then show ?case by (simp add: resize_size_le_capacity)
  next
    case (step_assign_copy s a b)
    then show ?case by (simp add: assign_copy_size_le_capacity)
  next
    case (step_assign_move s a b)
    then show ?case by (simp add: assign_move_size_le_capacity)
  qed
  then show ?thesis by simp
qed


lemma reachable_one_map: "reachable 100 (Some []) None one_map"
proof -
  have r0: "reachable 100 (Some [] :: string option) (None :: int option) (\<lambda>a. vectormap_default (Some []) None)"
    by (rule reachable.start)
  have "reachable 100 (Some [] :: string option) (None :: int option)
          ((\<lambda>a. vectormap_default (Some []) None)
             (0 := vectormap_il 100 (Some []) None [(''a'', 1), (''b'', 2), (''c'', 3)]))"
    by (rule reachable.new_il[OF r0]) simp
  then show ?thesis by (simp only: one_map_def abc_def)
qed

theorem size_le_capacity_witness:
  "reachable 100 (Some []) None grown_map \<and> (0 :: size_type) < 100
   \<and> size_m (grown_map 0) = 4 \<and> capacity_m (grown_map 0) = 100
   \<and> size_m (grown_map 0) \<le> capacity_m (grown_map 0)"
proof -
  have f: "fits 100 (one_map 0) 1"
    by (simp add: fits_def one_map_def abc_def size_m_vectormap_il)
  have r: "reachable 100 (Some []) None grown_map"
    unfolding grown_map_def by (rule reachable.step_insert_val[OF reachable_one_map f])
  have pos: "(0 :: size_type) < 100" by simp
  have sz: "size_m (grown_map 0) = 4" and cap: "capacity_m (grown_map 0) = 100"
    by code_simp+
  from size_le_capacity[OF r pos, of 0] r pos sz cap show ?thesis by simp
qed

subsection \<open>Accessors by position\<close>




end
